theory Spec2Isabelle
  imports Main
begin

section \<open>JavaScript numbers and their decimal notation\<close>

text \<open>
  The numbers that occur in \<^verbatim>\<open>calculateDuration\<close> are either \<^verbatim>\<open>NaN\<close> (the time value of
  an invalid \<^verbatim>\<open>Date\<close> and everything computed from it) or integers: the time values of
  two dates, of magnitude at most \<open>8.64 * 10^15\<close>, their difference and its quotients.
  \<open>Num i\<close> is the double whose value is the integer \<open>i\<close>; the operations below are those of
  doubles as long as the integers stay within \<open>2^53\<close> in magnitude, where double
  arithmetic on integers is exact.
\<close>

datatype number = NaN | Num int

text \<open>\<^verbatim>\<open>a - b\<close>\<close>

fun jsSub :: "number \<Rightarrow> number \<Rightarrow> number" where
  "jsSub (Num a) (Num b) = Num (a - b)"
| "jsSub _ _ = NaN"

text \<open>\<^verbatim>\<open>Math.floor(a / k)\<close> for a positive integer constant \<open>k\<close>\<close>

fun mathFloorDiv :: "number \<Rightarrow> int \<Rightarrow> number" where
  "mathFloorDiv (Num a) k = Num (a div k)"
| "mathFloorDiv NaN k = NaN"

text \<open>
  \<^verbatim>\<open>a % k\<close>: the remainder takes the sign of the dividend (truncated division), unlike
  \<open>mod\<close> of HOL.
\<close>

fun jsRem :: "number \<Rightarrow> int \<Rightarrow> number" where
  "jsRem (Num a) k = (if k = 0 then NaN else Num (sgn a * (\<bar>a\<bar> mod \<bar>k\<bar>)))"
| "jsRem NaN k = NaN"

text \<open>\<^verbatim>\<open>a < k\<close> and \<^verbatim>\<open>a > k\<close>: every comparison with \<^verbatim>\<open>NaN\<close> is false.\<close>

fun jsLt :: "number \<Rightarrow> int \<Rightarrow> bool" where
  "jsLt (Num a) k = (a < k)"
| "jsLt NaN k = False"

fun jsGt :: "number \<Rightarrow> int \<Rightarrow> bool" where
  "jsGt (Num a) k = (a > k)"
| "jsGt NaN k = False"

definition digitChar :: "nat \<Rightarrow> char" where
  "digitChar d = ''0123456789'' ! d"

fun showNat :: "nat \<Rightarrow> string" where
  "showNat n = (if n < 10 then [digitChar n] else showNat (n div 10) @ [digitChar (n mod 10)])"

declare showNat.simps [simp del]

text \<open>
  \<^verbatim>\<open>String(x)\<close>, as a template literal applies it: the word \<^verbatim>\<open>NaN\<close>, and for an integer
  of magnitude up to \<open>2^53\<close> its decimal digits with a leading minus sign. Beyond
  \<open>2^53\<close> JavaScript writes the shortest digits that read back as the same double, and
  from \<open>10^21\<close> on exponent notation; the equation below does not give those texts, and
  the theorems of the claims evaluate it only within \<open>2^53\<close>.
\<close>

fun numberToString :: "number \<Rightarrow> string" where
  "numberToString NaN = ''NaN''"
| "numberToString (Num i) = (if i < 0 then CHR ''-'' # showNat (nat (- i)) else showNat (nat i))"


section \<open>Duration display (\<^verbatim>\<open>src/client/src/pages/settings.tsx\<close>)\<close>

subsection \<open>The \<^verbatim>\<open>Date\<close> constructor on the reference date\<close>

definition digitVal :: "char \<Rightarrow> nat option" where
  "digitVal c = (let n = (of_char c :: nat) in if 48 \<le> n \<and> n \<le> 57 then Some (n - 48) else None)"

definition twoDigits :: "char \<Rightarrow> char \<Rightarrow> nat option" where
  "twoDigits a b =
     (case digitVal a of None \<Rightarrow> None
      | Some x \<Rightarrow> (case digitVal b of None \<Rightarrow> None | Some y \<Rightarrow> Some (10 * x + y)))"

definition threeDigits :: "char \<Rightarrow> char \<Rightarrow> char \<Rightarrow> nat option" where
  "threeDigits a b c =
     (case digitVal a of None \<Rightarrow> None
      | Some x \<Rightarrow> (case twoDigits b c of None \<Rightarrow> None | Some y \<Rightarrow> Some (100 * x + y)))"

text \<open>
  Milliseconds since midnight of the fields of a time of day. The date-time string format
  of ECMAScript admits hours 00 to 23, minutes and seconds 00 to 59, and \<^verbatim>\<open>24:00:00\<close> for
  the end of the day.
\<close>

definition makeTime :: "nat option \<Rightarrow> nat option \<Rightarrow> nat option \<Rightarrow> nat option \<Rightarrow> int option" where
  "makeTime hh mm ss ms =
     (case hh of None \<Rightarrow> None | Some h \<Rightarrow>
      (case mm of None \<Rightarrow> None | Some m \<Rightarrow>
       (case ss of None \<Rightarrow> None | Some s \<Rightarrow>
        (case ms of None \<Rightarrow> None | Some f \<Rightarrow>
           if (h \<le> 23 \<and> m \<le> 59 \<and> s \<le> 59) \<or> (h = 24 \<and> m = 0 \<and> s = 0 \<and> f = 0)
           then Some (int (((h * 60 + m) * 60 + s) * 1000 + f))
           else None))))"

text \<open>
  The time part of a date-time string without a zone, in the three forms \<^verbatim>\<open>HH:mm\<close>,
  \<^verbatim>\<open>HH:mm:ss\<close> and \<^verbatim>\<open>HH:mm:ss.sss\<close>: its milliseconds since midnight. \<open>None\<close> says
  that the text is not of these forms, not that the constructor rejects it: a text may
  carry a zone suffix (\<^verbatim>\<open>Z\<close>, \<^verbatim>\<open>+HH:mm\<close>), and engines read further texts.
\<close>

definition parseTimePart :: "string \<Rightarrow> int option" where
  "parseTimePart t =
     (if length t = 5 then
        (if t ! 2 = CHR '':''
         then makeTime (twoDigits (t ! 0) (t ! 1)) (twoDigits (t ! 3) (t ! 4)) (Some 0) (Some 0)
         else None)
      else if length t = 8 then
        (if t ! 2 = CHR '':'' \<and> t ! 5 = CHR '':''
         then makeTime (twoDigits (t ! 0) (t ! 1)) (twoDigits (t ! 3) (t ! 4))
                (twoDigits (t ! 6) (t ! 7)) (Some 0)
         else None)
      else if length t = 12 then
        (if t ! 2 = CHR '':'' \<and> t ! 5 = CHR '':'' \<and> t ! 8 = CHR ''.''
         then makeTime (twoDigits (t ! 0) (t ! 1)) (twoDigits (t ! 3) (t ! 4))
                (twoDigits (t ! 6) (t ! 7)) (threeDigits (t ! 9) (t ! 10) (t ! 11))
         else None)
      else None)"

text \<open>The time value of \<^verbatim>\<open>2023-01-01T00:00:00Z\<close>, in milliseconds since the epoch.\<close>

definition midnight20230101 :: int where
  "midnight20230101 = 1672531200000"

text \<open>
  \<^verbatim>\<open>new Date(`2023-01-01T${t}`)\<close>, the object given by its time value. A date-time string
  without a zone is local time: \<open>tz\<close> is the offset of the local zone from UTC on that
  day, in milliseconds. For a text that is not of the three forms above, the time value
  is what the engine makes of it, \<open>otherTexts t\<close>: a number when the engine reads the text
  (a zone suffix, a fraction of another length, a fallback parser), and \<^verbatim>\<open>NaN\<close>, an
  invalid \<^verbatim>\<open>Date\<close>, when it does not. The constructor does not throw.
\<close>

definition newDate :: "int \<Rightarrow> (string \<Rightarrow> number) \<Rightarrow> string \<Rightarrow> number" where
  "newDate tz otherTexts t =
     (case parseTimePart t of
        None \<Rightarrow> otherTexts t
      | Some ms \<Rightarrow> Num (midnight20230101 - tz + ms))"

definition getTime :: "number \<Rightarrow> number" where
  "getTime d = d"

subsection \<open>\<^verbatim>\<open>calculateDuration\<close>\<close>

datatype error = Exception string

text \<open>The label of the \<^verbatim>\<open>catch\<close> branch; \<open>CHR 0xE1\<close> is the code unit of a with acute.\<close>

definition formatoInvalido :: string where
  "formatoInvalido = ''Formato inv'' @ [CHR 0xE1] @ ''lido''"

text \<open>
  The body of the \<^verbatim>\<open>try\<close> block. None of its operations throws (the \<^verbatim>\<open>Date\<close> constructor
  on a string, \<^verbatim>\<open>getTime\<close>, arithmetic, template literals of numbers), so it always
  completes with a value.
\<close>

definition calculateDuration_try ::
    "int \<Rightarrow> (string \<Rightarrow> number) \<Rightarrow> string \<Rightarrow> string \<Rightarrow> error + string" where
  "calculateDuration_try tz otherTexts startTime endTime =
     (let start = newDate tz otherTexts startTime;
          end = newDate tz otherTexts endTime;
          durationMs = jsSub (getTime end) (getTime start);
          minutes = mathFloorDiv durationMs 60000
      in if jsLt minutes 60 then Inr (numberToString minutes @ '' minutos'')
         else
           (let hours = mathFloorDiv minutes 60;
                remainingMins = jsRem minutes 60
            in Inr (if jsGt remainingMins 0
                    then numberToString hours @ ''h '' @ numberToString remainingMins @ ''min''
                    else numberToString hours @ '' horas'')))"

definition calculateDuration ::
    "int \<Rightarrow> (string \<Rightarrow> number) \<Rightarrow> string \<Rightarrow> string \<Rightarrow> string" where
  "calculateDuration tz otherTexts startTime endTime =
     (case calculateDuration_try tz otherTexts startTime endTime of
        Inr label \<Rightarrow> label
      | Inl error \<Rightarrow> formatoInvalido)"

text \<open>The branches of \<^verbatim>\<open>calculateDuration\<close> after \<^verbatim>\<open>minutes\<close> is computed, as a function of it.\<close>

definition labelOf :: "number \<Rightarrow> error + string" where
  "labelOf minutes =
     (if jsLt minutes 60 then Inr (numberToString minutes @ '' minutos'')
      else Inr (if jsGt (jsRem minutes 60) 0
                then numberToString (mathFloorDiv minutes 60) @ ''h '' @
                     numberToString (jsRem minutes 60) @ ''min''
                else numberToString (mathFloorDiv minutes 60) @ '' horas''))"

subsection \<open>Well-formed times, as the specification names them\<close>

definition wellFormedHHMM :: "string \<Rightarrow> bool" where
  "wellFormedHHMM s =
     (length s = 5 \<and> s ! 2 = CHR '':'' \<and>
      (case twoDigits (s ! 0) (s ! 1) of None \<Rightarrow> False | Some h \<Rightarrow> h \<le> 23) \<and>
      (case twoDigits (s ! 3) (s ! 4) of None \<Rightarrow> False | Some m \<Rightarrow> m \<le> 59))"

text \<open>The minute of the day that a well-formed time names.\<close>

definition minuteOfDay :: "string \<Rightarrow> int" where
  "minuteOfDay s =
     (case twoDigits (s ! 0) (s ! 1) of None \<Rightarrow> 0 | Some h \<Rightarrow>
      (case twoDigits (s ! 3) (s ! 4) of None \<Rightarrow> 0 | Some m \<Rightarrow> int (h * 60 + m)))"


text \<open>The formatting policy of the specification, on the elapsed minutes.\<close>

definition formattingPolicy :: "nat \<Rightarrow> string" where
  "formattingPolicy m =
     (if m < 60 then showNat m @ '' minutos''
      else if m mod 60 = 0 then showNat (m div 60) @ '' horas''
      else showNat (m div 60) @ ''h '' @ showNat (m mod 60) @ ''min'')"

section \<open>Notification queue (\<^verbatim>\<open>src/components/ui/use-toast.ts\<close>)\<close>

definition TOAST_LIMIT :: nat where
  "TOAST_LIMIT = 1"

definition TOAST_REMOVE_DELAY :: nat where
  "TOAST_REMOVE_DELAY = 1000000"

subsection \<open>The identifier counter\<close>

text \<open>
  \<^verbatim>\<open>count\<close> is a double that holds a natural number. \<^verbatim>\<open>Number.MAX_VALUE\<close> is the largest
  finite double, \<open>(2^53 - 1) * 2^971\<close>.
\<close>

definition MAX_VALUE :: nat where
  "MAX_VALUE = (2 ^ 53 - 1) * 2 ^ 971"

fun bitLength :: "nat \<Rightarrow> nat" where
  "bitLength n = (if n = 0 then 0 else Suc (bitLength (n div 2)))"

declare bitLength.simps [simp del]

text \<open>
  The double nearest to a natural number (round to nearest, ties to the even
  significand): a significand has 53 bits, so every natural number below \<open>2^53\<close> is a
  double, and a larger one keeps its 53 leading bits. Numbers up to
  \<^verbatim>\<open>Number.MAX_VALUE\<close> \<open>+ 1\<close>, the only ones the counter can ask for, do not overflow.
\<close>

definition roundToDouble :: "nat \<Rightarrow> nat" where
  "roundToDouble n =
     (if n < 2 ^ 53 then n
      else
        (let e = bitLength n - 53;
             q = n div 2 ^ e;
             r = n mod 2 ^ e;
             half = 2 ^ (e - 1)
         in if r < half \<or> (r = half \<and> even q) then q * 2 ^ e else (q + 1) * 2 ^ e))"

text \<open>
  \<^verbatim>\<open>count = (count + 1) % Number.MAX_VALUE; return count.toString()\<close>: the new value of
  the counter and the identifier. The addition rounds; the remainder of doubles is exact.
  \<^verbatim>\<open>toString\<close> writes the decimal digits of an integer below \<open>10^21\<close>; the exponent
  notation of larger numbers is not modelled, and a counter that starts at 0 never gets
  there.
\<close>

definition genId :: "nat \<Rightarrow> nat \<times> string" where
  "genId count =
     (let count' = roundToDouble (count + 1) mod MAX_VALUE
      in (count', numberToString (Num (int count'))))"

text \<open>The counter after \<open>n\<close> calls of \<^verbatim>\<open>genId\<close> in a process, where it starts at 0.\<close>

primrec countAfter :: "nat \<Rightarrow> nat" where
  "countAfter 0 = 0"
| "countAfter (Suc n) = fst (genId (countAfter n))"

subsection \<open>The hook\<close>

text \<open>The argument of \<^verbatim>\<open>toast\<close>, \<^verbatim>\<open>Omit<ToasterToast, "id">\<close>; \<open>'n\<close> stands for \<^verbatim>\<open>React.ReactNode\<close>.\<close>

record 'n Props =
  title :: "string option"
  description :: "string option"
  action :: "'n option"

record 'n ToasterToast = "'n Props" +
  toastId :: string

record 'n State =
  toasts :: "'n ToasterToast list"

text \<open>
  What the module and the host hold while components that call \<^verbatim>\<open>useToast\<close> are mounted:
  the module's counter, the clock of the event loop in milliseconds, the state that
  \<^verbatim>\<open>React.useState\<close> keeps for each mounted instance of the hook, and the callbacks that
  \<^verbatim>\<open>setTimeout\<close> has pending, each with the time it is due, the instance whose \<^verbatim>\<open>setState\<close>
  it calls and the identifier it removes.
\<close>

record 'n World =
  count :: nat
  now :: nat
  hooks :: "'n State list"
  timers :: "(nat \<times> nat \<times> string) list"

definition initialWorld :: "'n World" where
  "initialWorld = \<lparr>count = 0, now = 0, hooks = [], timers = []\<rparr>"

text \<open>\<^verbatim>\<open>setState(f)\<close> of instance \<open>h\<close>; a call on an instance that is not mounted changes nothing.\<close>

definition setState :: "nat \<Rightarrow> ('n State \<Rightarrow> 'n State) \<Rightarrow> 'n State list \<Rightarrow> 'n State list" where
  "setState h f hs = (if h < length hs then hs[h := f (hs ! h)] else hs)"

text \<open>The first render of a component that calls \<^verbatim>\<open>useToast\<close>: a state of its own, empty.\<close>

definition useToast :: "'n World \<Rightarrow> nat \<times> 'n World" where
  "useToast w = (length (hooks w), w\<lparr>hooks := hooks w @ [\<lparr>toasts = []\<rparr>]\<rparr>)"

text \<open>\<^verbatim>\<open>toasts: state.toasts\<close>, read through instance \<open>h\<close>\<close>

definition readToasts :: "nat \<Rightarrow> 'n World \<Rightarrow> 'n ToasterToast list" where
  "readToasts h w = (if h < length (hooks w) then toasts (hooks w ! h) else [])"

text \<open>The updater of the first \<^verbatim>\<open>setState\<close> in \<^verbatim>\<open>toast\<close>; \<^verbatim>\<open>slice(0, TOAST_LIMIT)\<close> is \<open>take\<close>.\<close>

definition addToast :: "string \<Rightarrow> 'n Props \<Rightarrow> 'n State \<Rightarrow> 'n State" where
  "addToast i props state =
     state\<lparr>toasts :=
       take TOAST_LIMIT
         (toasts state @
          [\<lparr>title = title props, description = description props, action = action props,
            toastId = i\<rparr>])\<rparr>"

text \<open>The updater of the \<^verbatim>\<open>setState\<close> in the callback of \<^verbatim>\<open>setTimeout\<close>\<close>

definition removeToast :: "string \<Rightarrow> 'n State \<Rightarrow> 'n State" where
  "removeToast i state = state\<lparr>toasts := filter (\<lambda>t. toastId t \<noteq> i) (toasts state)\<rparr>"

text \<open>\<^verbatim>\<open>toast(props)\<close> of instance \<open>h\<close>\<close>

definition toast :: "nat \<Rightarrow> 'n Props \<Rightarrow> 'n World \<Rightarrow> 'n World" where
  "toast h props w =
     (let (count', i) = genId (count w)
      in w\<lparr>count := count',
            hooks := setState h (addToast i props) (hooks w),
            timers := timers w @ [(now w + TOAST_REMOVE_DELAY, h, i)]\<rparr>)"

text \<open>The callback that \<^verbatim>\<open>toast\<close> hands to \<^verbatim>\<open>setTimeout\<close>, for instance \<open>h\<close> and identifier \<open>i\<close>\<close>

definition timeoutCallback :: "nat \<Rightarrow> string \<Rightarrow> 'n State list \<Rightarrow> 'n State list" where
  "timeoutCallback h i hs = setState h (removeToast i) hs"

text \<open>The event loop at time \<open>t\<close> runs, in the order of their registration, the callbacks due.\<close>

primrec runDue :: "nat \<Rightarrow> (nat \<times> nat \<times> string) list \<Rightarrow> 'n State list \<Rightarrow> 'n State list" where
  "runDue t [] hs = hs"
| "runDue t (x # xs) hs =
     runDue t xs (if fst x \<le> t then timeoutCallback (fst (snd x)) (snd (snd x)) hs else hs)"

text \<open>\<open>d\<close> milliseconds pass.\<close>

definition elapse :: "nat \<Rightarrow> 'n World \<Rightarrow> 'n World" where
  "elapse d w =
     (let t = now w + d
      in w\<lparr>now := t,
            hooks := runDue t (timers w) (hooks w),
            timers := filter (\<lambda>x. t < fst x) (timers w)\<rparr>)"

text \<open>What can happen to the queue: a component mounts, a message is enqueued, time passes.\<close>

datatype 'n event = Mount | Enqueue nat "'n Props" | Elapse nat

fun step :: "'n event \<Rightarrow> 'n World \<Rightarrow> 'n World" where
  "step Mount w = snd (useToast w)"
| "step (Enqueue h props) w = toast h props w"
| "step (Elapse d) w = elapse d w"

definition run :: "'n event list \<Rightarrow> 'n World \<Rightarrow> 'n World" where
  "run evs w = foldl (\<lambda>w ev. step ev w) w evs"

text \<open>Instance \<open>h\<close> shows no entry with identifier \<open>i\<close>.\<close>

definition noEntry :: "nat \<Rightarrow> string \<Rightarrow> 'n State list \<Rightarrow> bool" where
  "noEntry h i hs = (\<forall>t \<in> set (toasts (hs ! h)). toastId t \<noteq> i)"

section \<open>Settings view (\<^verbatim>\<open>src/client/src/pages/settings.tsx\<close>)\<close>

text \<open>
  Strings are lists of code units; a letter with an accent is written by its code unit
  (\<open>CHR 0xE1\<close> a acute, \<open>CHR 0xE9\<close> e acute, \<open>CHR 0xED\<close> i acute, \<open>CHR 0xF3\<close> o acute).
\<close>

record ActivityType =
  id_ActivityType :: int
  name_ActivityType :: string
  code_ActivityType :: string
  color_ActivityType :: string

record ActivityTypeFormValues =
  name :: string
  code :: string
  color :: string

record TimeSlotFormValues =
  startTime :: string
  endTime :: string

subsection \<open>Form validators\<close>

text \<open>
  A schema gives the issues of a value, each with the field and the message;
  \<^verbatim>\<open>z.string().min(n, message)\<close> compares \<^verbatim>\<open>length\<close> with \<open>n\<close>.
\<close>

definition stringMin :: "string \<Rightarrow> nat \<Rightarrow> string \<Rightarrow> string \<Rightarrow> (string \<times> string) list" where
  "stringMin field n message v = (if length v < n then [(field, message)] else [])"

definition activityTypeSchema :: "ActivityTypeFormValues \<Rightarrow> (string \<times> string) list" where
  "activityTypeSchema v =
     stringMin ''name'' 2 ''Nome deve ter pelo menos 2 caracteres'' (name v) @
     stringMin ''code'' 2 (''C'' @ [CHR 0xF3] @ ''digo deve ter pelo menos 2 caracteres'') (code v) @
     stringMin ''color'' 1 (''Cor '' @ [CHR 0xE9] @ '' obrigat'' @ [CHR 0xF3] @ ''ria'') (color v)"

definition timeSlotSchema :: "TimeSlotFormValues \<Rightarrow> (string \<times> string) list" where
  "timeSlotSchema v =
     stringMin ''startTime'' 5 ''Hora inicial deve estar no formato HH:MM'' (startTime v) @
     stringMin ''endTime'' 5 ''Hora final deve estar no formato HH:MM'' (endTime v)"

subsection \<open>The state of the component and its collaborators\<close>

text \<open>
  A form of \<^verbatim>\<open>useForm\<close>: the values of its fields, the default values that \<^verbatim>\<open>reset()\<close>
  restores, and the errors of the last validation.
\<close>

record 'v Form =
  fieldValues :: 'v
  defaultValues :: 'v
  errors :: "(string \<times> string) list"

text \<open>
  \<^verbatim>\<open>form.reset()\<close> and \<^verbatim>\<open>form.reset(v)\<close>: without an argument the fields go back to the
  default values; with one, the argument becomes the values and the default values.
\<close>

definition reset :: "'v option \<Rightarrow> 'v Form \<Rightarrow> 'v Form" where
  "reset arg form =
     (case arg of
        None \<Rightarrow> form\<lparr>fieldValues := defaultValues form, errors := []\<rparr>
      | Some v \<Rightarrow> \<lparr>fieldValues = v, defaultValues = v, errors = []\<rparr>)"

datatype Method = POST | PUT | DELETE

text \<open>The third argument of \<^verbatim>\<open>apiRequest\<close>: the form values, with \<^verbatim>\<open>id\<close> when it is there, or \<^verbatim>\<open>{}\<close>.\<close>

datatype RequestData =
  ActivityTypeData ActivityTypeFormValues "int option"
| TimeSlotData TimeSlotFormValues
| EmptyData

record Request =
  httpMethod :: Method
  url :: string
  data :: RequestData

text \<open>How the promise of \<^verbatim>\<open>apiRequest\<close> settles: resolved, or rejected with an error and its message.\<close>

datatype Response = Resolved | Rejected string

text \<open>The argument of a call of the \<^verbatim>\<open>toast\<close> of this component.\<close>

datatype ToastCall = ToastCall (callTitle: string) (callDescription: string) (callVariant: string)

text \<open>
  The state of \<^verbatim>\<open>Settings\<close>, and the calls it has made to its collaborators, in order:
  the requests of \<^verbatim>\<open>apiRequest\<close>, the query keys handed to
  \<^verbatim>\<open>queryClient.invalidateQueries\<close> and the arguments of \<^verbatim>\<open>toast\<close>.
\<close>

record Settings =
  activeTab :: string
  editingActivityId :: "int option"
  activityModalOpen :: bool
  timeSlotModalOpen :: bool
  activityForm :: "ActivityTypeFormValues Form"
  timeSlotForm :: "TimeSlotFormValues Form"
  requests :: "Request list"
  invalidated :: "string list"
  toastCalls :: "ToastCall list"

definition activityDefaults :: ActivityTypeFormValues where
  "activityDefaults = \<lparr>name = [], code = [], color = ''#3b82f6''\<rparr>"

definition timeSlotDefaults :: TimeSlotFormValues where
  "timeSlotDefaults = \<lparr>startTime = [], endTime = []\<rparr>"

definition initialSettings :: Settings where
  "initialSettings =
     \<lparr>activeTab = ''activities'', editingActivityId = None,
      activityModalOpen = False, timeSlotModalOpen = False,
      activityForm = \<lparr>fieldValues = activityDefaults, defaultValues = activityDefaults, errors = []\<rparr>,
      timeSlotForm = \<lparr>fieldValues = timeSlotDefaults, defaultValues = timeSlotDefaults, errors = []\<rparr>,
      requests = [], invalidated = [], toastCalls = []\<rparr>"

text \<open>
  The test \<^verbatim>\<open>if (x)\<close> on a value of type \<^verbatim>\<open>number | null\<close> or \<^verbatim>\<open>number | undefined\<close> that
  holds an integer when it holds a number: \<^verbatim>\<open>null\<close>, \<^verbatim>\<open>undefined\<close> and \<open>0\<close> are falsy.
\<close>

definition truthy :: "int option \<Rightarrow> bool" where
  "truthy x = (case x of None \<Rightarrow> False | Some n \<Rightarrow> n \<noteq> 0)"

definition apiRequest :: "Method \<Rightarrow> string \<Rightarrow> RequestData \<Rightarrow> Settings \<Rightarrow> Settings" where
  "apiRequest m u d st = st\<lparr>requests := requests st @ [\<lparr>httpMethod = m, url = u, data = d\<rparr>]\<rparr>"

definition invalidateQueries :: "string \<Rightarrow> Settings \<Rightarrow> Settings" where
  "invalidateQueries queryKey st = st\<lparr>invalidated := invalidated st @ [queryKey]\<rparr>"

definition toastCall :: "string \<Rightarrow> string \<Rightarrow> string \<Rightarrow> Settings \<Rightarrow> Settings" where
  "toastCall t d v st = st\<lparr>toastCalls := toastCalls st @ [ToastCall t d v]\<rparr>"

subsection \<open>The mutations\<close>

text \<open>
  Each mutation is given as \<^verbatim>\<open>useMutation\<close> runs it: \<^verbatim>\<open>mutationFn\<close> issues the request, and
  \<^verbatim>\<open>onSuccess\<close> runs when the promise resolves, \<^verbatim>\<open>onError\<close> with the error when it rejects.
\<close>

text \<open>\<^verbatim>\<open>${data.id}\<close> in a template literal\<close>

definition idText :: "int option \<Rightarrow> string" where
  "idText i = (case i of None \<Rightarrow> ''undefined'' | Some n \<Rightarrow> numberToString (Num n))"

definition saveActivityType_mutationFn ::
    "ActivityTypeFormValues \<Rightarrow> int option \<Rightarrow> Settings \<Rightarrow> Settings" where
  "saveActivityType_mutationFn v i st =
     (if truthy i
      then apiRequest PUT (''/api/activity-types/'' @ idText i) (ActivityTypeData v i) st
      else apiRequest POST ''/api/activity-types'' (ActivityTypeData v i) st)"

definition saveActivityType_onSuccess :: "Settings \<Rightarrow> Settings" where
  "saveActivityType_onSuccess st =
     (let st1 = toastCall ''Sucesso''
                  (if truthy (editingActivityId st)
                   then ''Tipo de atividade atualizado com sucesso.''
                   else ''Tipo de atividade criado com sucesso.'')
                  ''default'' st;
          st2 = st1\<lparr>activityModalOpen := False\<rparr>;
          st3 = st2\<lparr>activityForm := reset None (activityForm st2)\<rparr>;
          st4 = st3\<lparr>editingActivityId := None\<rparr>
      in invalidateQueries ''/api/activity-types'' st4)"

definition saveActivityType_onError :: "string \<Rightarrow> Settings \<Rightarrow> Settings" where
  "saveActivityType_onError message st =
     toastCall ''Erro'' (''Falha ao salvar: '' @ message) ''destructive'' st"

definition saveActivityType ::
    "ActivityTypeFormValues \<Rightarrow> int option \<Rightarrow> Response \<Rightarrow> Settings \<Rightarrow> Settings" where
  "saveActivityType v i response st =
     (let st1 = saveActivityType_mutationFn v i st
      in case response of
           Resolved \<Rightarrow> saveActivityType_onSuccess st1
         | Rejected message \<Rightarrow> saveActivityType_onError message st1)"

definition deleteActivityType :: "int \<Rightarrow> Response \<Rightarrow> Settings \<Rightarrow> Settings" where
  "deleteActivityType i response st =
     (let st1 = apiRequest DELETE (''/api/activity-types/'' @ numberToString (Num i)) EmptyData st
      in case response of
           Resolved \<Rightarrow>
             invalidateQueries ''/api/activity-types''
               (toastCall ''Sucesso''
                  (''Tipo de atividade exclu'' @ [CHR 0xED] @ ''do com sucesso.'') ''default'' st1)
         | Rejected message \<Rightarrow>
             toastCall ''Erro'' (''Falha ao excluir: '' @ message) ''destructive'' st1)"

definition saveTimeSlot :: "TimeSlotFormValues \<Rightarrow> Response \<Rightarrow> Settings \<Rightarrow> Settings" where
  "saveTimeSlot v response st =
     (let st1 = apiRequest POST ''/api/time-slots'' (TimeSlotData v) st
      in case response of
           Resolved \<Rightarrow>
             (let st2 = toastCall ''Sucesso''
                          (''Hor'' @ [CHR 0xE1] @ ''rio adicionado com sucesso.'') ''default'' st1;
                  st3 = st2\<lparr>timeSlotModalOpen := False\<rparr>;
                  st4 = st3\<lparr>timeSlotForm := reset None (timeSlotForm st3)\<rparr>
              in invalidateQueries ''/api/time-slots'' st4)
         | Rejected message \<Rightarrow>
             toastCall ''Erro'' (''Falha ao salvar: '' @ message) ''destructive'' st1)"

definition deleteTimeSlot :: "int \<Rightarrow> Response \<Rightarrow> Settings \<Rightarrow> Settings" where
  "deleteTimeSlot i response st =
     (let st1 = apiRequest DELETE (''/api/time-slots/'' @ numberToString (Num i)) EmptyData st
      in case response of
           Resolved \<Rightarrow>
             invalidateQueries ''/api/time-slots''
               (toastCall ''Sucesso''
                  (''Hor'' @ [CHR 0xE1] @ ''rio exclu'' @ [CHR 0xED] @ ''do com sucesso.'')
                  ''default'' st1)
         | Rejected message \<Rightarrow>
             toastCall ''Erro'' (''Falha ao excluir: '' @ message) ''destructive'' st1)"

subsection \<open>The handlers\<close>

definition handleEditActivity :: "ActivityType \<Rightarrow> Settings \<Rightarrow> Settings" where
  "handleEditActivity activity st =
     (let st1 = st\<lparr>editingActivityId := Some (id_ActivityType activity)\<rparr>;
          st2 = st1\<lparr>activityForm :=
                  reset (Some \<lparr>name = name_ActivityType activity,
                                code = code_ActivityType activity,
                                color = color_ActivityType activity\<rparr>) (activityForm st1)\<rparr>
      in st2\<lparr>activityModalOpen := True\<rparr>)"

definition handleNewActivity :: "Settings \<Rightarrow> Settings" where
  "handleNewActivity st =
     (let st1 = st\<lparr>editingActivityId := None\<rparr>;
          st2 = st1\<lparr>activityForm :=
                  reset (Some \<lparr>name = [], code = [], color = ''#3b82f6''\<rparr>) (activityForm st1)\<rparr>
      in st2\<lparr>activityModalOpen := True\<rparr>)"

definition onSubmitActivityType ::
    "ActivityTypeFormValues \<Rightarrow> Response \<Rightarrow> Settings \<Rightarrow> Settings" where
  "onSubmitActivityType v response st =
     (if truthy (editingActivityId st)
      then saveActivityType v (editingActivityId st) response st
      else saveActivityType v None response st)"

definition onSubmitTimeSlot :: "TimeSlotFormValues \<Rightarrow> Response \<Rightarrow> Settings \<Rightarrow> Settings" where
  "onSubmitTimeSlot v response st = saveTimeSlot v response st"

text \<open>
  \<^verbatim>\<open>activityForm.handleSubmit(onSubmitActivityType)\<close> on a submit event: the resolver
  validates the values of the form; the handler runs only when there is no issue, and
  otherwise the issues become the errors of the form.
\<close>

definition activityForm_handleSubmit :: "Response \<Rightarrow> Settings \<Rightarrow> Settings" where
  "activityForm_handleSubmit response st =
     (let form = activityForm st; issues = activityTypeSchema (fieldValues form)
      in if issues = []
         then onSubmitActivityType (fieldValues form) response (st\<lparr>activityForm := form\<lparr>errors := []\<rparr>\<rparr>)
         else st\<lparr>activityForm := form\<lparr>errors := issues\<rparr>\<rparr>)"

definition timeSlotForm_handleSubmit :: "Response \<Rightarrow> Settings \<Rightarrow> Settings" where
  "timeSlotForm_handleSubmit response st =
     (let form = timeSlotForm st; issues = timeSlotSchema (fieldValues form)
      in if issues = []
         then onSubmitTimeSlot (fieldValues form) response (st\<lparr>timeSlotForm := form\<lparr>errors := []\<rparr>\<rparr>)
         else st\<lparr>timeSlotForm := form\<lparr>errors := issues\<rparr>\<rparr>)"

text \<open>The write mutations of the component, and the resource each one writes.\<close>

datatype Mutation =
  SaveActivityType ActivityTypeFormValues "int option"
| DeleteActivityType int
| SaveTimeSlot TimeSlotFormValues
| DeleteTimeSlot int

fun mutate :: "Mutation \<Rightarrow> Response \<Rightarrow> Settings \<Rightarrow> Settings" where
  "mutate (SaveActivityType v i) response st = saveActivityType v i response st"
| "mutate (DeleteActivityType i) response st = deleteActivityType i response st"
| "mutate (SaveTimeSlot v) response st = saveTimeSlot v response st"
| "mutate (DeleteTimeSlot i) response st = deleteTimeSlot i response st"

fun resource :: "Mutation \<Rightarrow> string" where
  "resource (SaveActivityType v i) = ''/api/activity-types''"
| "resource (DeleteActivityType i) = ''/api/activity-types''"
| "resource (SaveTimeSlot v) = ''/api/time-slots''"
| "resource (DeleteTimeSlot i) = ''/api/time-slots''"

fun failureLabel :: "Mutation \<Rightarrow> string" where
  "failureLabel (SaveActivityType v i) = ''Falha ao salvar: ''"
| "failureLabel (DeleteActivityType i) = ''Falha ao excluir: ''"
| "failureLabel (SaveTimeSlot v) = ''Falha ao salvar: ''"
| "failureLabel (DeleteTimeSlot i) = ''Falha ao excluir: ''"


section \<open>Properties of the duration display\<close>

lemma parseTimePart_wellFormed:
  "wellFormedHHMM s \<Longrightarrow> parseTimePart s = Some (minuteOfDay s * 60000)"
  by (auto simp: wellFormedHHMM_def parseTimePart_def minuteOfDay_def makeTime_def
           split: option.splits)

lemma newDate_wellFormed:
  "wellFormedHHMM s \<Longrightarrow>
     newDate tz otherTexts s = Num (midnight20230101 - tz + minuteOfDay s * 60000)"
  by (simp add: newDate_def parseTimePart_wellFormed)

text \<open>
  The minutes between two well-formed times depend neither on the zone nor on what the
  engine makes of other texts.
\<close>

lemma minutes_wellFormed:
  assumes "wellFormedHHMM s" and "wellFormedHHMM e"
  shows "mathFloorDiv
           (jsSub (getTime (newDate tz otherTexts e)) (getTime (newDate tz otherTexts s))) 60000
         = Num (minuteOfDay e - minuteOfDay s)"
proof -
  have "(midnight20230101 - tz + minuteOfDay e * 60000)
          - (midnight20230101 - tz + minuteOfDay s * 60000)
        = (minuteOfDay e - minuteOfDay s) * 60000"
    by (simp add: algebra_simps)
  then show ?thesis
    using assms by (simp add: newDate_wellFormed getTime_def)
qed

lemma calculateDuration_try_labelOf:
  "calculateDuration_try tz otherTexts s e =
     labelOf (mathFloorDiv
       (jsSub (getTime (newDate tz otherTexts e)) (getTime (newDate tz otherTexts s))) 60000)"
  by (simp add: calculateDuration_try_def labelOf_def Let_def)

lemma labelOf_nonnegative:
  assumes "0 \<le> d"
  shows "labelOf (Num d) = Inr (formattingPolicy (nat d))"
proof (cases "d < 60")
  case True
  with assms show ?thesis by (simp add: labelOf_def formattingPolicy_def)
next
  case False
  then have d: "60 \<le> d" by simp
  then have r: "sgn d * (\<bar>d\<bar> mod 60) = d mod 60" by simp
  have n1: "nat (d div 60) = nat d div 60" using d by (simp add: nat_div_distrib)
  have n2: "nat (d mod 60) = nat d mod 60" using d by (simp add: nat_mod_distrib)
  have n3: "(0 < d mod 60) = (nat d mod 60 \<noteq> 0)" using n2 d
    by (metis gr0I nat_0_iff neq0_conv zero_less_nat_eq)
  have n4: "\<not> nat d < 60" using d by simp
  have "\<not> d div 60 < 0" using d by simp
  moreover have "\<not> d mod 60 < 0" by simp
  ultimately show ?thesis using False d
    by (simp add: labelOf_def formattingPolicy_def r n1 n2 n3 n4)
qed

lemma labelOf_NaN: "labelOf NaN = Inr ''NaN horas''"
  by (simp add: labelOf_def)

lemma labelOf_negative: "d < 0 \<Longrightarrow> labelOf (Num d) = Inr (CHR ''-'' # showNat (nat (- d)) @ '' minutos'')"
  by (simp add: labelOf_def)

lemmas dur_ev = wellFormedHHMM_def minuteOfDay_def parseTimePart_def makeTime_def twoDigits_def digitVal_def
  formattingPolicy_def showNat.simps digitChar_def

text \<open>
  Claim C5. For well-formed \<^verbatim>\<open>HH:MM\<close> times with the end not before the start,
  \<^verbatim>\<open>calculateDuration\<close> returns the label of the formatting policy on the elapsed minutes
  \<open>m\<close>: \<^verbatim>\<open>{m} minutos\<close> under 60, \<^verbatim>\<open>{h} horas\<close> from 60 on with no remainder, and
  \<^verbatim>\<open>{h}h {m}min\<close> from 60 on with a remainder, whatever the local zone and the engine.
  From 08:00 to 08:45 it is \<^verbatim>\<open>45 minutos\<close>, and from 08:00 to 09:30 it is \<^verbatim>\<open>1h 30min\<close>.
\<close>

theorem calculateDuration_formatting_policy:
  "(wellFormedHHMM s \<and> wellFormedHHMM e \<and> minuteOfDay s \<le> minuteOfDay e \<longrightarrow>
      calculateDuration tz otherTexts s e
        = formattingPolicy (nat (minuteOfDay e - minuteOfDay s)))
   \<and> calculateDuration tz otherTexts ''08:00'' ''08:45'' = ''45 minutos''
   \<and> calculateDuration tz otherTexts ''08:00'' ''09:30'' = ''1h 30min''"
proof -
  have general: "calculateDuration tz otherTexts s e
      = formattingPolicy (nat (minuteOfDay e - minuteOfDay s))"
    if wf: "wellFormedHHMM s" "wellFormedHHMM e" and le: "minuteOfDay s \<le> minuteOfDay e"
    for s e
  proof -
    have "calculateDuration_try tz otherTexts s e
        = Inr (formattingPolicy (nat (minuteOfDay e - minuteOfDay s)))"
      unfolding calculateDuration_try_labelOf minutes_wellFormed [OF wf]
      using le by (intro labelOf_nonnegative) simp
    then show ?thesis by (simp add: calculateDuration_def)
  qed
  have "calculateDuration tz otherTexts ''08:00'' ''08:45'' = ''45 minutos''"
    by (subst general) (simp_all add: dur_ev)
  moreover have "calculateDuration tz otherTexts ''08:00'' ''09:30'' = ''1h 30min''"
    by (subst general) (simp_all add: dur_ev)
  ultimately show ?thesis using general by blast
qed

theorem calculateDuration_formatting_policy_witness:
  "wellFormedHHMM ''08:00'' \<and> wellFormedHHMM ''10:00''
   \<and> minuteOfDay ''08:00'' \<le> minuteOfDay ''10:00''
   \<and> calculateDuration 0 (\<lambda>t. NaN) ''08:00'' ''10:00'' = ''2 horas''"
proof -
  have h: "wellFormedHHMM ''08:00'' \<and> wellFormedHHMM ''10:00''
           \<and> minuteOfDay ''08:00'' \<le> minuteOfDay ''10:00''"
    by (simp add: dur_ev)
  have "calculateDuration 0 (\<lambda>t. NaN) ''08:00'' ''10:00''
        = formattingPolicy (nat (minuteOfDay ''10:00'' - minuteOfDay ''08:00''))"
    using calculateDuration_formatting_policy
            [where s = "''08:00''" and e = "''10:00''" and tz = 0 and otherTexts = "\<lambda>t. NaN"] h
    by blast
  also have "\<dots> = ''2 horas''" by (simp add: dur_ev)
  finally show ?thesis using h by simp
qed

text \<open>
  Claim C10. For well-formed \<^verbatim>\<open>HH:MM\<close> times with the end strictly before the start
  there is no special case: the \<^verbatim>\<open>try\<close> block completes without an error in the branch
  for less than 60 minutes, and the label is \<^verbatim>\<open>{m} minutos\<close> with the negative count
  \<open>m\<close>, a minus sign before its digits.
\<close>

theorem calculateDuration_end_before_start:
  assumes "wellFormedHHMM s" and "wellFormedHHMM e" and "minuteOfDay e < minuteOfDay s"
  shows "calculateDuration_try tz otherTexts s e
           = Inr (numberToString (Num (minuteOfDay e - minuteOfDay s)) @ '' minutos'')
         \<and> calculateDuration tz otherTexts s e
           = CHR ''-'' # showNat (nat (minuteOfDay s - minuteOfDay e)) @ '' minutos''"
proof -
  have "calculateDuration_try tz otherTexts s e
          = Inr (CHR ''-'' # showNat (nat (- (minuteOfDay e - minuteOfDay s))) @ '' minutos'')"
    unfolding calculateDuration_try_labelOf minutes_wellFormed [OF assms(1,2)]
    using assms(3) by (intro labelOf_negative) simp
  then show ?thesis using assms(3) by (simp add: calculateDuration_def)
qed

theorem calculateDuration_end_before_start_witness:
  "wellFormedHHMM ''09:00'' \<and> wellFormedHHMM ''08:30''
   \<and> minuteOfDay ''08:30'' < minuteOfDay ''09:00''
   \<and> calculateDuration 0 (\<lambda>t. NaN) ''09:00'' ''08:30'' = ''-30 minutos''"
proof -
  have h: "wellFormedHHMM ''09:00''" "wellFormedHHMM ''08:30''"
      "minuteOfDay ''08:30'' < minuteOfDay ''09:00''"
    by (simp_all add: dur_ev)
  have "calculateDuration 0 (\<lambda>t. NaN) ''09:00'' ''08:30''
        = CHR ''-'' # showNat (nat (minuteOfDay ''09:00'' - minuteOfDay ''08:30'')) @ '' minutos''"
    using calculateDuration_end_before_start [OF h, where tz = 0 and otherTexts = "\<lambda>t. NaN"]
    by blast
  also have "\<dots> = ''-30 minutos''" by (simp add: dur_ev)
  finally show ?thesis using h by simp
qed

text \<open>
  Claim C2, on the code. When the \<^verbatim>\<open>Date\<close> made from the start or from the end is invalid,
  that is, when the text does not parse and the time value is \<^verbatim>\<open>NaN\<close>, nothing is thrown:
  the \<^verbatim>\<open>try\<close> block completes, every number in it is \<^verbatim>\<open>NaN\<close>, both comparisons are
  false, and the label is \<^verbatim>\<open>NaN horas\<close>. The label of the \<^verbatim>\<open>catch\<close> branch is not
  returned. This holds in every zone and for every engine, whatever texts it reads.
\<close>

theorem calculateDuration_invalid_Date:
  assumes "getTime (newDate tz otherTexts s) = NaN \<or> getTime (newDate tz otherTexts e) = NaN"
  shows "calculateDuration_try tz otherTexts s e = Inr ''NaN horas''
         \<and> calculateDuration tz otherTexts s e = ''NaN horas''
         \<and> calculateDuration tz otherTexts s e \<noteq> formatoInvalido"
proof -
  have "jsSub (getTime (newDate tz otherTexts e)) (getTime (newDate tz otherTexts s)) = NaN"
  proof (cases "getTime (newDate tz otherTexts s) = NaN")
    case True
    then show ?thesis by (cases "getTime (newDate tz otherTexts e)") simp_all
  next
    case False
    with assms have "getTime (newDate tz otherTexts e) = NaN" by simp
    then show ?thesis by simp
  qed
  then have "calculateDuration_try tz otherTexts s e = Inr ''NaN horas''"
    by (simp add: calculateDuration_try_labelOf labelOf_NaN)
  then show ?thesis by (simp add: calculateDuration_def formatoInvalido_def)
qed

theorem calculateDuration_invalid_Date_witness:
  "getTime (newDate 0 (\<lambda>t. NaN) ''abc'') = NaN
   \<and> calculateDuration 0 (\<lambda>t. NaN) ''abc'' ''08:00'' = ''NaN horas''
   \<and> calculateDuration 0 (\<lambda>t. NaN) ''abc'' ''08:00'' \<noteq> formatoInvalido"
proof -
  have h: "getTime (newDate 0 (\<lambda>t. NaN) ''abc'') = NaN"
    by (simp add: getTime_def newDate_def parseTimePart_def)
  then have "getTime (newDate 0 (\<lambda>t. NaN) ''abc'') = NaN
             \<or> getTime (newDate 0 (\<lambda>t. NaN) ''08:00'') = NaN"
    by simp
  from calculateDuration_invalid_Date [OF this] h show ?thesis by blast
qed

text \<open>
  Where the engine reads a text, the \<^verbatim>\<open>Date\<close> is valid and the label is a duration: with
  the zone suffix \<^verbatim>\<open>Z\<close>, from 00:00Z to 00:01Z it is \<^verbatim>\<open>1 minutos\<close>.
\<close>

lemma calculateDuration_zone_suffix:
  assumes "otherTexts ''00:00Z'' = Num midnight20230101"
    and "otherTexts ''00:01Z'' = Num (midnight20230101 + 60000)"
  shows "calculateDuration tz otherTexts ''00:00Z'' ''00:01Z'' = ''1 minutos''"
proof -
  have "newDate tz otherTexts ''00:00Z'' = Num midnight20230101"
    and "newDate tz otherTexts ''00:01Z'' = Num (midnight20230101 + 60000)"
    using assms by (simp_all add: newDate_def parseTimePart_def)
  then have "mathFloorDiv
      (jsSub (getTime (newDate tz otherTexts ''00:01Z'')) (getTime (newDate tz otherTexts ''00:00Z'')))
      60000 = Num 1"
    by (simp add: getTime_def)
  then have "calculateDuration_try tz otherTexts ''00:00Z'' ''00:01Z'' = labelOf (Num 1)"
    by (simp only: calculateDuration_try_labelOf)
  then show ?thesis
    by (simp add: calculateDuration_def labelOf_def showNat.simps digitChar_def)
qed

section \<open>Properties of the notification queue\<close>

subsection \<open>The counter\<close>

lemma two53_less_MAX_VALUE: "(2::nat) ^ 53 < MAX_VALUE"
  by (simp add: MAX_VALUE_def)

lemma roundToDouble_two53: "roundToDouble (2 ^ 53) = 2 ^ 53"
  by (simp add: roundToDouble_def bitLength.simps Let_def)

lemma roundToDouble_exact: "n \<le> 2 ^ 53 \<Longrightarrow> roundToDouble n = n"
proof (cases "n < 2 ^ 53")
  case True
  then show ?thesis by (simp add: roundToDouble_def)
next
  case False
  assume "n \<le> 2 ^ 53"
  with False have "n = 2 ^ 53" by simp
  then show ?thesis by (simp only: roundToDouble_two53)
qed

lemma genId_below_two53:
  assumes "c < 2 ^ 53"
  shows "genId c = (c + 1, showNat (c + 1))"
proof -
  from assms have le: "c + 1 \<le> 2 ^ 53" by simp
  then have "c + 1 < MAX_VALUE" using two53_less_MAX_VALUE by linarith
  then have "roundToDouble (c + 1) mod MAX_VALUE = c + 1"
    by (simp only: roundToDouble_exact [OF le] mod_less)
  moreover have "nat (int (c + 1)) = c + 1" by simp
  ultimately show ?thesis
    unfolding genId_def Let_def numberToString.simps by (simp only: of_nat_less_0_iff if_False)
qed

lemma genId_at_two53: "genId (2 ^ 53) = (2 ^ 53, ''9007199254740992'')"
  by (simp add: genId_def roundToDouble_def MAX_VALUE_def bitLength.simps Let_def
      showNat.simps digitChar_def)

lemma bitLength_eq: "2 ^ k \<le> n \<Longrightarrow> n < 2 ^ Suc k \<Longrightarrow> bitLength n = Suc k"
proof (induction k arbitrary: n)
  case 0
  then have "n = 1" by simp
  then show ?case by (simp add: bitLength.simps)
next
  case (Suc k)
  then have "2 ^ k \<le> n div 2" "n div 2 < 2 ^ Suc k" by auto
  then have "bitLength (n div 2) = Suc k" by (rule Suc.IH)
  moreover have "(0::nat) < 2 ^ Suc k" by simp
  then have "n \<noteq> 0" using Suc.prems(1) by linarith
  ultimately show ?case by (subst bitLength.simps) simp
qed

lemma bitLength_MAX_VALUE_plus_1: "bitLength (MAX_VALUE + 1) = 1024"
proof -
  have "bitLength (MAX_VALUE + 1) = Suc 1023"
    by (rule bitLength_eq) (simp_all add: MAX_VALUE_def)
  then show ?thesis by simp
qed

lemma roundToDouble_MAX_VALUE_plus_1: "roundToDouble (MAX_VALUE + 1) = MAX_VALUE"
  unfolding roundToDouble_def bitLength_MAX_VALUE_plus_1 Let_def
  by (simp add: MAX_VALUE_def)

lemma genId_at_MAX_VALUE: "genId MAX_VALUE = (0, ''0'')"
  unfolding genId_def roundToDouble_MAX_VALUE_plus_1 Let_def
  by (simp add: showNat.simps digitChar_def)

lemma countAfter_min: "countAfter n = min n (2 ^ 53)"
proof (induction n)
  case 0
  show ?case by simp
next
  case (Suc n)
  show ?case
  proof (cases "n < 2 ^ 53")
    case True
    then show ?thesis using Suc by (simp add: genId_below_two53)
  next
    case False
    then have "countAfter n = 2 ^ 53" using Suc by simp
    then have "countAfter (Suc n) = 2 ^ 53"
      by (simp only: countAfter.simps genId_at_two53 fst_conv)
    with False show ?thesis by simp
  qed
qed

subsection \<open>One call of \<^verbatim>\<open>toast\<close>\<close>

lemma length_setState [simp]: "length (setState h f hs) = length hs"
  by (simp add: setState_def)

lemma nth_setState: "setState h f hs ! k = (if k = h \<and> h < length hs then f (hs ! h) else hs ! k)"
  by (simp add: setState_def)

lemma hooks_toast: "hooks (toast h p w) = setState h (addToast (snd (genId (count w))) p) (hooks w)"
  by (simp add: toast_def split: prod.splits)

lemma timers_toast:
  "timers (toast h p w) = timers w @ [(now w + TOAST_REMOVE_DELAY, h, snd (genId (count w)))]"
  by (simp add: toast_def split: prod.splits)

lemma now_toast [simp]: "now (toast h p w) = now w"
  by (simp add: toast_def split: prod.splits)

lemma count_toast: "count (toast h p w) = fst (genId (count w))"
  by (simp add: toast_def split: prod.splits)

lemma readToasts_toast_same:
  "h < length (hooks w) \<Longrightarrow>
   readToasts h (toast h p w) =
     take TOAST_LIMIT (readToasts h w @
       [\<lparr>title = title p, description = description p, action = action p,
         toastId = snd (genId (count w))\<rparr>])"
  by (simp add: readToasts_def hooks_toast nth_setState addToast_def)

lemma readToasts_toast_other:
  "h' \<noteq> h \<Longrightarrow> readToasts h' (toast h p w) = readToasts h' w"
  by (simp add: readToasts_def hooks_toast nth_setState)

lemma length_readToasts_toast: "length (readToasts h (toast h p w)) \<le> 1"
proof (cases "h < length (hooks w)")
  case True
  then show ?thesis by (simp add: readToasts_toast_same TOAST_LIMIT_def)
next
  case False
  then show ?thesis by (simp add: readToasts_def hooks_toast)
qed

lemma toasts_bounded_all_sequences:
  "length (readToasts h w) \<le> 1 \<Longrightarrow> length (readToasts h (foldl (\<lambda>w p. toast h p w) w ps)) \<le> 1"
proof (induction ps arbitrary: w)
  case Nil
  then show ?case by simp
next
  case (Cons p ps)
  have "length (readToasts h (toast h p w)) \<le> 1" by (rule length_readToasts_toast)
  then show ?case by (simp only: foldl_Cons Cons.IH)
qed

subsection \<open>Events and pending removals\<close>

lemma length_timeoutCallback [simp]: "length (timeoutCallback h i hs) = length hs"
  by (simp add: timeoutCallback_def)

lemma length_runDue [simp]: "length (runDue t xs hs) = length hs"
  by (induction xs arbitrary: hs) simp_all

lemma length_hooks_step: "length (hooks w) \<le> length (hooks (step ev w))"
  by (cases ev) (simp_all add: useToast_def hooks_toast elapse_def Let_def)

lemma now_step: "now w \<le> now (step ev w)"
  by (cases ev) (simp_all add: useToast_def elapse_def Let_def)

lemma run_Nil [simp]: "run [] w = w"
  by (simp add: run_def)

lemma run_Cons [simp]: "run (ev # evs) w = run evs (step ev w)"
  by (simp add: run_def)

lemma now_run: "now w \<le> now (run evs w)"
proof (induction evs arbitrary: w)
  case Nil
  show ?case by simp
next
  case (Cons ev evs)
  have "now w \<le> now (step ev w)" by (rule now_step)
  also have "\<dots> \<le> now (run evs (step ev w))" by (rule Cons.IH)
  finally show ?case by simp
qed

lemma length_hooks_run: "length (hooks w) \<le> length (hooks (run evs w))"
proof (induction evs arbitrary: w)
  case Nil
  show ?case by simp
next
  case (Cons ev evs)
  have "length (hooks w) \<le> length (hooks (step ev w))" by (rule length_hooks_step)
  also have "\<dots> \<le> length (hooks (run evs (step ev w)))" by (rule Cons.IH)
  finally show ?case by simp
qed

lemma timer_pending_step:
  "x \<in> set (timers w) \<Longrightarrow> now (step ev w) < fst x \<Longrightarrow> x \<in> set (timers (step ev w))"
  by (cases ev) (simp_all add: useToast_def timers_toast elapse_def Let_def)

lemma timer_pending_run:
  "x \<in> set (timers w) \<Longrightarrow> now (run evs w) < fst x \<Longrightarrow> x \<in> set (timers (run evs w))"
proof (induction evs arbitrary: w)
  case Nil
  then show ?case by simp
next
  case (Cons ev evs)
  have "now (step ev w) \<le> now (run evs (step ev w))" by (rule now_run)
  with Cons.prems(2) have "now (step ev w) < fst x" by simp
  with Cons.prems(1) have "x \<in> set (timers (step ev w))" by (rule timer_pending_step)
  then show ?case using Cons.prems(2) by (simp add: Cons.IH)
qed

lemma noEntry_timeoutCallback:
  "noEntry h i hs \<Longrightarrow> noEntry h i (timeoutCallback h' i' hs)"
  by (auto simp: noEntry_def timeoutCallback_def nth_setState removeToast_def)

lemma noEntry_runDue: "noEntry h i hs \<Longrightarrow> noEntry h i (runDue t xs hs)"
  by (induction xs arbitrary: hs) (simp_all add: noEntry_timeoutCallback)

lemma timeoutCallback_removes:
  "h < length hs \<Longrightarrow> noEntry h i (timeoutCallback h i hs)"
  by (auto simp: noEntry_def timeoutCallback_def nth_setState removeToast_def)

lemma runDue_removes:
  "(due, h, i) \<in> set xs \<Longrightarrow> due \<le> t \<Longrightarrow> h < length hs \<Longrightarrow> noEntry h i (runDue t xs hs)"
proof (induction xs arbitrary: hs)
  case Nil
  then show ?case by simp
next
  case (Cons x xs)
  show ?case
  proof (cases "x = (due, h, i)")
    case True
    with Cons.prems have "noEntry h i (timeoutCallback h i hs)"
      by (simp add: timeoutCallback_removes)
    then show ?thesis using True Cons.prems(2) by (simp add: noEntry_runDue)
  next
    case False
    with Cons.prems(1) have "(due, h, i) \<in> set xs" by simp
    then show ?thesis using Cons.prems(2,3) by (simp add: Cons.IH)
  qed
qed

lemma elapse_removes:
  assumes "(due, h, i) \<in> set (timers w)" and "due \<le> now w + d" and "h < length (hooks w)"
  shows "\<forall>t \<in> set (readToasts h (elapse d w)). toastId t \<noteq> i"
proof -
  have "noEntry h i (runDue (now w + d) (timers w) (hooks w))"
    using assms by (rule runDue_removes)
  then show ?thesis
    using assms(3) by (simp add: readToasts_def elapse_def Let_def noEntry_def)
qed

lemma readToasts_timeoutCallback:
  "readToasts h' (w\<lparr>hooks := timeoutCallback h i (hooks w)\<rparr>) =
     (if h' = h then filter (\<lambda>t. toastId t \<noteq> i) (readToasts h w) else readToasts h' w)"
  by (simp add: readToasts_def timeoutCallback_def nth_setState removeToast_def)

subsection \<open>The claims about the queue\<close>

lemmas world_ev = initialWorld_def useToast_def toast_def setState_def addToast_def removeToast_def
  readToasts_def elapse_def timeoutCallback_def TOAST_LIMIT_def TOAST_REMOVE_DELAY_def

lemma genId_0: "genId 0 = (1, ''1'')"
  using genId_below_two53 [of 0] by (simp add: showNat.simps digitChar_def)

text \<open>
  Claim C3, as the code has it. While the counter is below \<open>2^53\<close>, a call of \<^verbatim>\<open>genId\<close>
  adds exactly 1 and returns the decimal digits of the new value. In a process, where the
  counter starts at 0, every call produces a positive value, at most \<open>2^53\<close>: the counter
  stays below \<^verbatim>\<open>Number.MAX_VALUE\<close>, so the remainder never takes effect and nothing wraps.
\<close>

theorem genId_counts_up_without_wrap:
  "(c < 2 ^ 53 \<longrightarrow> genId c = (c + 1, showNat (c + 1)))
   \<and> 0 < countAfter (Suc n) \<and> countAfter (Suc n) \<le> 2 ^ 53 \<and> countAfter (Suc n) < MAX_VALUE"
proof -
  have "countAfter (Suc n) \<le> 2 ^ 53" "0 < countAfter (Suc n)"
    by (simp_all only: countAfter_min) simp_all
  then show ?thesis
    using two53_less_MAX_VALUE genId_below_two53 by (auto simp del: countAfter.simps)
qed

theorem genId_counts_up_without_wrap_witness:
  "(0::nat) < 2 ^ 53 \<and> genId 0 = (1, ''1'') \<and> 0 < countAfter (Suc 0)"
  using genId_counts_up_without_wrap [of 0 0] by (simp add: showNat.simps digitChar_def)

text \<open>
  Against claim C3 as stated: after \<open>2^53\<close> calls the counter is \<open>2^53\<close>, and there the
  addition of 1 rounds back to \<open>2^53\<close>, so a call neither adds 1 nor wraps to 1; and a
  counter that is at the bound goes to 0, not to 1.
\<close>

theorem genId_wrap_counterexample:
  "countAfter (2 ^ 53) = 2 ^ 53
   \<and> genId (2 ^ 53) = (2 ^ 53, ''9007199254740992'')
   \<and> genId MAX_VALUE = (0, ''0'')"
  using genId_at_two53 genId_at_MAX_VALUE by (simp only: countAfter_min min.idem simp_thms)

text \<open>
  Claim C1, on the code. After every sequence of calls of \<^verbatim>\<open>toast\<close>, one or more, the
  list of the instance holds at most one entry. When the list already shows an entry, it
  is that entry, the oldest, that a call keeps: \<^verbatim>\<open>slice(0, TOAST_LIMIT)\<close> takes the front
  of the list, to whose end the new message was appended, so the message just enqueued
  is the one dropped.
\<close>

theorem toast_at_cap_keeps_oldest:
  "length (readToasts h (foldl (\<lambda>w p. toast h p w) w (p # ps))) \<le> 1
   \<and> (readToasts h w = t # ts \<longrightarrow> readToasts h (toast h p w) = [t])"
proof (intro conjI impI)
  have "length (readToasts h (toast h p w)) \<le> 1" by (rule length_readToasts_toast)
  then have "length (readToasts h (foldl (\<lambda>w p. toast h p w) (toast h p w) ps)) \<le> 1"
    by (rule toasts_bounded_all_sequences)
  then show "length (readToasts h (foldl (\<lambda>w p. toast h p w) w (p # ps))) \<le> 1"
    by simp
next
  assume shown: "readToasts h w = t # ts"
  then have "h < length (hooks w)" by (auto simp: readToasts_def split: if_splits)
  then have "readToasts h (toast h p w)
      = take TOAST_LIMIT (readToasts h w @
          [\<lparr>title = title p, description = description p, action = action p,
            toastId = snd (genId (count w))\<rparr>])"
    by (rule readToasts_toast_same)
  also have "\<dots> = [t]" by (simp add: shown TOAST_LIMIT_def)
  finally show "readToasts h (toast h p w) = [t]" .
qed

theorem toast_at_cap_keeps_oldest_witness:
  "readToasts 0 (run [Mount, Enqueue 0 \<lparr>title = Some ''A'', description = None, action = None\<rparr>]
                   (initialWorld :: unit World))
     = [\<lparr>title = Some ''A'', description = None, action = None, toastId = ''1''\<rparr>]
   \<and> readToasts 0 (run [Mount, Enqueue 0 \<lparr>title = Some ''A'', description = None, action = None\<rparr>,
                          Enqueue 0 \<lparr>title = Some ''B'', description = None, action = None\<rparr>]
                   (initialWorld :: unit World))
     = [\<lparr>title = Some ''A'', description = None, action = None, toastId = ''1''\<rparr>]"
proof -
  let ?w = "run [Mount, Enqueue 0 \<lparr>title = Some ''A'', description = None, action = None\<rparr>]
              (initialWorld :: unit World)"
  have first: "readToasts 0 ?w
      = [\<lparr>title = Some ''A'', description = None, action = None, toastId = ''1''\<rparr>]"
    by (simp add: world_ev genId_0)
  from toast_at_cap_keeps_oldest
         [where h = 0 and w = ?w and ts = "[]" and ps = "[]"
            and t = "\<lparr>title = Some ''A'', description = None, action = None, toastId = ''1''\<rparr>"
            and p = "\<lparr>title = Some ''B'', description = None, action = None\<rparr>"]
       first
  have "readToasts 0 (toast 0 \<lparr>title = Some ''B'', description = None, action = None\<rparr> ?w)
      = [\<lparr>title = Some ''A'', description = None, action = None, toastId = ''1''\<rparr>]"
    by blast
  with first show ?thesis by simp
qed

text \<open>
  Claim C4, as the code has it. The list is state of the instance of the hook: a call of
  \<^verbatim>\<open>toast\<close> through one instance leaves the list read through any other instance as it
  was. Only the counter of identifiers is shared by the whole process.
\<close>

theorem toast_changes_own_instance_only:
  "(h' \<noteq> h \<longrightarrow> readToasts h' (toast h p w) = readToasts h' w)
   \<and> count (toast h p w) = fst (genId (count w))"
proof (intro conjI impI)
  assume "h' \<noteq> h"
  then show "readToasts h' (toast h p w) = readToasts h' w"
    by (rule readToasts_toast_other)
next
  show "count (toast h p w) = fst (genId (count w))"
    by (rule count_toast)
qed

theorem toast_changes_own_instance_only_witness:
  "readToasts 1 (toast 0 \<lparr>title = Some ''A'', description = None, action = None\<rparr>
                  (run [Mount, Mount] (initialWorld :: unit World))) = []
   \<and> count (toast 0 \<lparr>title = Some ''A'', description = None, action = None\<rparr>
              (run [Mount, Mount] (initialWorld :: unit World))) = 1"
proof -
  let ?w = "run [Mount, Mount] (initialWorld :: unit World)"
  have "readToasts 1 ?w = []" "count ?w = 0"
    by (simp_all add: world_ev)
  then show ?thesis
    using toast_changes_own_instance_only
            [of 1 0 "\<lparr>title = Some ''A'', description = None, action = None\<rparr>" ?w]
    by (simp add: genId_0)
qed

text \<open>
  Against claim C4 as stated: with two instances mounted, a message enqueued through the
  first is in the list of the first and not in the list read through the second.
\<close>

theorem toast_not_shared_counterexample:
  "readToasts 0 (run [Mount, Mount, Enqueue 0 \<lparr>title = Some ''A'', description = None, action = None\<rparr>]
                   (initialWorld :: unit World))
     = [\<lparr>title = Some ''A'', description = None, action = None, toastId = ''1''\<rparr>]
   \<and> readToasts 1 (run [Mount, Mount, Enqueue 0 \<lparr>title = Some ''A'', description = None, action = None\<rparr>]
                   (initialWorld :: unit World))
     = []"
  by (simp add: world_ev genId_0)

text \<open>
  Claim C6. A call of \<^verbatim>\<open>toast\<close> on a mounted instance schedules one removal, due
  \<^verbatim>\<open>TOAST_REMOVE_DELAY\<close> after the call and carrying the identifier just assigned.
  Whatever happens next (components mounting, further messages, time passing), the
  removal stays pending as long as the clock is before that time, and the passage of time
  that takes the clock to that time or beyond leaves no entry with this identifier in the
  list of the instance. The callback deletes exactly the entries with its identifier: the
  list after it is the list before it without them.
\<close>

theorem toast_removed_when_delay_elapses:
  assumes h: "h < length (hooks w)"
  shows "timers (toast h p w) = timers w @ [(now w + TOAST_REMOVE_DELAY, h, snd (genId (count w)))]
    \<and> (now (run evs (toast h p w)) < now w + TOAST_REMOVE_DELAY \<longrightarrow>
          (now w + TOAST_REMOVE_DELAY, h, snd (genId (count w))) \<in> set (timers (run evs (toast h p w))))
    \<and> (now (run evs (toast h p w)) < now w + TOAST_REMOVE_DELAY \<and>
        now w + TOAST_REMOVE_DELAY \<le> now (run evs (toast h p w)) + d \<longrightarrow>
          (\<forall>t \<in> set (readToasts h (elapse d (run evs (toast h p w)))).
             toastId t \<noteq> snd (genId (count w))))
    \<and> readToasts h (w'\<lparr>hooks := timeoutCallback h i (hooks w')\<rparr>)
         = filter (\<lambda>t. toastId t \<noteq> i) (readToasts h w')"
proof -
  let ?x = "(now w + TOAST_REMOVE_DELAY, h, snd (genId (count w)))"
  let ?w1 = "toast h p w"
  have sched: "timers ?w1 = timers w @ [?x]" by (rule timers_toast)
  then have mem: "?x \<in> set (timers ?w1)" by simp
  have pend: "?x \<in> set (timers (run evs ?w1))" if "now (run evs ?w1) < now w + TOAST_REMOVE_DELAY"
    using mem that by (intro timer_pending_run) simp_all
  have len: "h < length (hooks (run evs ?w1))"
  proof -
    have "length (hooks w) = length (hooks ?w1)" by (simp add: hooks_toast)
    also have "\<dots> \<le> length (hooks (run evs ?w1))" by (rule length_hooks_run)
    finally show ?thesis using h by simp
  qed
  have gone: "\<forall>t \<in> set (readToasts h (elapse d (run evs ?w1))). toastId t \<noteq> snd (genId (count w))"
    if "now (run evs ?w1) < now w + TOAST_REMOVE_DELAY"
      and "now w + TOAST_REMOVE_DELAY \<le> now (run evs ?w1) + d"
    using pend [OF that(1)] that(2) len by (rule elapse_removes)
  show ?thesis
    using sched pend gone by (simp add: readToasts_timeoutCallback)
qed

theorem toast_removed_when_delay_elapses_witness:
  "timers (toast 0 \<lparr>title = Some ''A'', description = None, action = None\<rparr>
             (run [Mount] (initialWorld :: unit World))) = [(1000000, 0, ''1'')]
   \<and> readToasts 0 (run [Elapse 999999] (toast 0 \<lparr>title = Some ''A'', description = None, action = None\<rparr>
             (run [Mount] (initialWorld :: unit World))))
       = [\<lparr>title = Some ''A'', description = None, action = None, toastId = ''1''\<rparr>]
   \<and> filter (\<lambda>t. toastId t = ''1'')
        (readToasts 0 (elapse 1 (run [Elapse 999999]
          (toast 0 \<lparr>title = Some ''A'', description = None, action = None\<rparr>
             (run [Mount] (initialWorld :: unit World)))))) = []"
proof -
  let ?w = "run [Mount] (initialWorld :: unit World)"
  let ?p = "\<lparr>title = Some ''A'', description = None, action = None :: unit option\<rparr>"
  have w: "0 < length (hooks ?w)" "now ?w = 0" "count ?w = 0" "timers ?w = []"
    by (simp_all add: world_ev)
  have n: "now (run [Elapse 999999] (toast 0 ?p ?w)) = 999999"
    by (simp add: world_ev genId_0 Let_def)
  have shown: "readToasts 0 (run [Elapse 999999] (toast 0 ?p ?w))
       = [\<lparr>title = Some ''A'', description = None, action = None, toastId = ''1''\<rparr>]"
    by (simp add: world_ev genId_0)
  have "timers (toast 0 ?p ?w) = [(1000000, 0, ''1'')]
    \<and> (\<forall>t \<in> set (readToasts 0 (elapse 1 (run [Elapse 999999] (toast 0 ?p ?w)))). toastId t \<noteq> ''1'')"
    using toast_removed_when_delay_elapses
            [OF w(1), where p = ?p and evs = "[Elapse 999999]" and d = 1 and w' = ?w and i = "''1''"]
    unfolding n w(2,3,4) genId_0 by (simp add: TOAST_REMOVE_DELAY_def)
  then show ?thesis using shown by (simp add: filter_empty_conv)
qed

section \<open>Properties of the settings view\<close>

lemmas mutation_defs = saveActivityType_def saveActivityType_mutationFn_def
  saveActivityType_onSuccess_def saveActivityType_onError_def deleteActivityType_def
  saveTimeSlot_def deleteTimeSlot_def apiRequest_def invalidateQueries_def toastCall_def

lemma saveActivityType_settles:
  "invalidated (mutate (SaveActivityType v i) r st)
     = invalidated st @ (case r of Resolved \<Rightarrow> [resource (SaveActivityType v i)] | Rejected e \<Rightarrow> [])
   \<and> (\<exists>req. requests (mutate (SaveActivityType v i) r st) = requests st @ [req]
            \<and> take (length (resource (SaveActivityType v i))) (url req) = resource (SaveActivityType v i))
   \<and> (r = Rejected e \<longrightarrow>
        toastCalls (mutate (SaveActivityType v i) r st)
          = toastCalls st @
            [ToastCall ''Erro'' (failureLabel (SaveActivityType v i) @ e) ''destructive''])"
  by (cases r) (simp_all add: mutation_defs Let_def)

lemma deleteActivityType_settles:
  "invalidated (mutate (DeleteActivityType i) r st)
     = invalidated st @ (case r of Resolved \<Rightarrow> [resource (DeleteActivityType i)] | Rejected e \<Rightarrow> [])
   \<and> (\<exists>req. requests (mutate (DeleteActivityType i) r st) = requests st @ [req]
            \<and> take (length (resource (DeleteActivityType i))) (url req) = resource (DeleteActivityType i))
   \<and> (r = Rejected e \<longrightarrow>
        toastCalls (mutate (DeleteActivityType i) r st)
          = toastCalls st @
            [ToastCall ''Erro'' (failureLabel (DeleteActivityType i) @ e) ''destructive''])"
  by (cases r) (simp_all add: mutation_defs Let_def)

lemma saveTimeSlot_settles:
  "invalidated (mutate (SaveTimeSlot v) r st)
     = invalidated st @ (case r of Resolved \<Rightarrow> [resource (SaveTimeSlot v)] | Rejected e \<Rightarrow> [])
   \<and> (\<exists>req. requests (mutate (SaveTimeSlot v) r st) = requests st @ [req]
            \<and> take (length (resource (SaveTimeSlot v))) (url req) = resource (SaveTimeSlot v))
   \<and> (r = Rejected e \<longrightarrow>
        toastCalls (mutate (SaveTimeSlot v) r st)
          = toastCalls st @
            [ToastCall ''Erro'' (failureLabel (SaveTimeSlot v) @ e) ''destructive''])"
  by (cases r) (simp_all add: mutation_defs Let_def)

lemma deleteTimeSlot_settles:
  "invalidated (mutate (DeleteTimeSlot i) r st)
     = invalidated st @ (case r of Resolved \<Rightarrow> [resource (DeleteTimeSlot i)] | Rejected e \<Rightarrow> [])
   \<and> (\<exists>req. requests (mutate (DeleteTimeSlot i) r st) = requests st @ [req]
            \<and> take (length (resource (DeleteTimeSlot i))) (url req) = resource (DeleteTimeSlot i))
   \<and> (r = Rejected e \<longrightarrow>
        toastCalls (mutate (DeleteTimeSlot i) r st)
          = toastCalls st @
            [ToastCall ''Erro'' (failureLabel (DeleteTimeSlot i) @ e) ''destructive''])"
  by (cases r) (simp_all add: mutation_defs Let_def)

text \<open>
  Claim C7. Every write mutation (saving or deleting an activity type, saving or deleting
  a time slot) issues one request under the path of its resource, and hands the query key
  of that same resource to \<^verbatim>\<open>invalidateQueries\<close> exactly once when the request resolves
  and not at all when it is rejected. When it is rejected, \<^verbatim>\<open>toast\<close> is called with the
  variant \<^verbatim>\<open>destructive\<close> and a description that ends with the message of the error.
\<close>

theorem mutation_invalidates_once_iff_resolved:
  "invalidated (mutate m r st)
     = invalidated st @ (case r of Resolved \<Rightarrow> [resource m] | Rejected e \<Rightarrow> [])
   \<and> (\<exists>req. requests (mutate m r st) = requests st @ [req]
            \<and> take (length (resource m)) (url req) = resource m)
   \<and> (r = Rejected e \<longrightarrow>
        toastCalls (mutate m r st)
          = toastCalls st @ [ToastCall ''Erro'' (failureLabel m @ e) ''destructive''])"
proof (cases m)
  case (SaveActivityType v i)
  show ?thesis unfolding SaveActivityType by (rule saveActivityType_settles)
next
  case (DeleteActivityType i)
  show ?thesis unfolding DeleteActivityType by (rule deleteActivityType_settles)
next
  case (SaveTimeSlot v)
  show ?thesis unfolding SaveTimeSlot by (rule saveTimeSlot_settles)
next
  case (DeleteTimeSlot i)
  show ?thesis unfolding DeleteTimeSlot by (rule deleteTimeSlot_settles)
qed

theorem mutation_invalidates_once_iff_resolved_witness:
  "invalidated (mutate (DeleteTimeSlot 3) Resolved initialSettings) = [''/api/time-slots'']
   \<and> invalidated (mutate (DeleteTimeSlot 3) (Rejected ''HTTP 500'') initialSettings) = []
   \<and> toastCalls (mutate (DeleteTimeSlot 3) (Rejected ''HTTP 500'') initialSettings)
       = [ToastCall ''Erro'' ''Falha ao excluir: HTTP 500'' ''destructive'']"
proof -
  have i: "invalidated initialSettings = []" "toastCalls initialSettings = []"
    by (simp_all add: initialSettings_def)
  show ?thesis
    using mutation_invalidates_once_iff_resolved
            [of "DeleteTimeSlot 3" Resolved initialSettings "''HTTP 500''"]
          mutation_invalidates_once_iff_resolved
            [of "DeleteTimeSlot 3" "Rejected ''HTTP 500''" initialSettings "''HTTP 500''"]
    by (simp add: i)
qed

lemma activityTypeSchema_fields:
  "map fst (activityTypeSchema v)
     = (if length (name v) < 2 then [''name''] else []) @
       (if length (code v) < 2 then [''code''] else []) @
       (if length (color v) < 1 then [''color''] else [])"
  by (simp add: activityTypeSchema_def stringMin_def)

text \<open>
  Claim C8. When the name or the code of the activity-type form has fewer than 2
  characters or the color is empty, the schema reports an issue, the submission stores
  the issues as the errors of the form and no request is made. Values with a name and a
  code of at least 2 characters and a color that is not empty pass the schema. The issues
  are field by field: one for each of the three fields that breaks its rule, in this order.
\<close>

theorem activityTypeSchema_gates_submission:
  "(length (name (fieldValues (activityForm st))) < 2
      \<or> length (code (fieldValues (activityForm st))) < 2
      \<or> color (fieldValues (activityForm st)) = [] \<longrightarrow>
        activityTypeSchema (fieldValues (activityForm st)) \<noteq> []
        \<and> errors (activityForm (activityForm_handleSubmit r st))
            = activityTypeSchema (fieldValues (activityForm st))
        \<and> requests (activityForm_handleSubmit r st) = requests st)
   \<and> (2 \<le> length (name v) \<and> 2 \<le> length (code v) \<and> color v \<noteq> [] \<longrightarrow> activityTypeSchema v = [])
   \<and> map fst (activityTypeSchema v)
       = (if length (name v) < 2 then [''name''] else []) @
         (if length (code v) < 2 then [''code''] else []) @
         (if color v = [] then [''color''] else [])"
proof (intro conjI impI)
  let ?v = "fieldValues (activityForm st)"
  assume bad: "length (name ?v) < 2 \<or> length (code ?v) < 2 \<or> color ?v = []"
  then have "map fst (activityTypeSchema ?v) \<noteq> []"
    unfolding activityTypeSchema_fields by auto
  then show issues: "activityTypeSchema ?v \<noteq> []" by auto
  then show "errors (activityForm (activityForm_handleSubmit r st)) = activityTypeSchema ?v"
    and "requests (activityForm_handleSubmit r st) = requests st"
    by (simp_all add: activityForm_handleSubmit_def Let_def)
next
  assume "2 \<le> length (name v) \<and> 2 \<le> length (code v) \<and> color v \<noteq> []"
  then show "activityTypeSchema v = []"
    by (simp add: activityTypeSchema_def stringMin_def)
next
  show "map fst (activityTypeSchema v)
       = (if length (name v) < 2 then [''name''] else []) @
         (if length (code v) < 2 then [''code''] else []) @
         (if color v = [] then [''color''] else [])"
    by (simp add: activityTypeSchema_fields)
qed

theorem activityTypeSchema_gates_submission_witness:
  "errors (activityForm (activityForm_handleSubmit Resolved
      (initialSettings\<lparr>activityForm :=
         \<lparr>fieldValues = \<lparr>name = ''A'', code = ''aula'', color = ''#3b82f6''\<rparr>,
          defaultValues = activityDefaults, errors = []\<rparr>\<rparr>)))
     = [(''name'', ''Nome deve ter pelo menos 2 caracteres'')]
   \<and> requests (activityForm_handleSubmit Resolved
      (initialSettings\<lparr>activityForm :=
         \<lparr>fieldValues = \<lparr>name = ''A'', code = ''aula'', color = ''#3b82f6''\<rparr>,
          defaultValues = activityDefaults, errors = []\<rparr>\<rparr>)) = []
   \<and> activityTypeSchema \<lparr>name = ''Aula'', code = ''aula'', color = ''#3b82f6''\<rparr> = []"
proof -
  let ?st = "initialSettings\<lparr>activityForm :=
         \<lparr>fieldValues = \<lparr>name = ''A'', code = ''aula'', color = ''#3b82f6''\<rparr>,
          defaultValues = activityDefaults, errors = []\<rparr>\<rparr>"
  have v: "fieldValues (activityForm ?st) = \<lparr>name = ''A'', code = ''aula'', color = ''#3b82f6''\<rparr>"
    and r: "requests ?st = []"
    by (simp_all add: initialSettings_def)
  have s: "activityTypeSchema \<lparr>name = ''A'', code = ''aula'', color = ''#3b82f6''\<rparr>
            = [(''name'', ''Nome deve ter pelo menos 2 caracteres'')]"
    by (simp add: activityTypeSchema_def stringMin_def)
  show ?thesis
    using activityTypeSchema_gates_submission
            [of ?st Resolved "\<lparr>name = ''Aula'', code = ''aula'', color = ''#3b82f6''\<rparr>"]
    unfolding v r s by simp
qed

text \<open>
  What a submission of the activity-type form requests, by the editing id, and what a
  resolved save leaves behind: the modal closed, the editing id cleared, the form back at
  its default values.
\<close>

lemma onSubmitActivityType_requests:
  "requests (onSubmitActivityType v r st)
     = requests st @
       [case editingActivityId st of
          None \<Rightarrow> \<lparr>httpMethod = POST, url = ''/api/activity-types'', data = ActivityTypeData v None\<rparr>
        | Some n \<Rightarrow>
            if n = 0
            then \<lparr>httpMethod = POST, url = ''/api/activity-types'', data = ActivityTypeData v None\<rparr>
            else \<lparr>httpMethod = PUT, url = ''/api/activity-types/'' @ numberToString (Num n),
                  data = ActivityTypeData v (Some n)\<rparr>]"
  by (cases r; cases "editingActivityId st")
     (simp_all add: onSubmitActivityType_def mutation_defs truthy_def idText_def Let_def)

lemma saveActivityType_resolved:
  "activityModalOpen (saveActivityType v i Resolved st) = False
   \<and> editingActivityId (saveActivityType v i Resolved st) = None
   \<and> fieldValues (activityForm (saveActivityType v i Resolved st)) = defaultValues (activityForm st)
   \<and> invalidated (saveActivityType v i Resolved st) = invalidated st @ [''/api/activity-types'']"
  by (simp add: mutation_defs reset_def Let_def)

text \<open>
  Claim C9, on the code. When the editing id is set to 0, as after \<^verbatim>\<open>handleEditActivity\<close>
  on an activity whose id is 0, a submission tests it with \<^verbatim>\<open>if (editingActivityId)\<close>,
  finds it falsy, and dispatches a create: \<^verbatim>\<open>POST /api/activity-types\<close> without the id.
\<close>

theorem onSubmitActivityType_editing_id_zero_creates:
  "editingActivityId st = Some 0 \<longrightarrow>
     requests (onSubmitActivityType v r st)
       = requests st @
         [\<lparr>httpMethod = POST, url = ''/api/activity-types'', data = ActivityTypeData v None\<rparr>]"
proof
  assume zero: "editingActivityId st = Some 0"
  have "\<not> truthy (editingActivityId st)" by (simp add: zero truthy_def)
  then have "onSubmitActivityType v r st = saveActivityType v None r st"
    by (simp add: onSubmitActivityType_def)
  moreover have "requests (saveActivityType v None r st)
      = requests st @
        [\<lparr>httpMethod = POST, url = ''/api/activity-types'', data = ActivityTypeData v None\<rparr>]"
    by (cases r) (simp_all add: mutation_defs truthy_def Let_def)
  ultimately show "requests (onSubmitActivityType v r st)
      = requests st @
        [\<lparr>httpMethod = POST, url = ''/api/activity-types'', data = ActivityTypeData v None\<rparr>]"
    by simp
qed

theorem onSubmitActivityType_editing_id_zero_creates_witness:
  "editingActivityId
     (handleEditActivity
        \<lparr>id_ActivityType = 0, name_ActivityType = ''Aula'', code_ActivityType = ''aula'',
         color_ActivityType = ''#3b82f6''\<rparr> initialSettings) = Some 0
   \<and> requests
       (activityForm_handleSubmit Resolved
         (handleEditActivity
           \<lparr>id_ActivityType = 0, name_ActivityType = ''Aula'', code_ActivityType = ''aula'',
            color_ActivityType = ''#3b82f6''\<rparr> initialSettings))
     = [\<lparr>httpMethod = POST, url = ''/api/activity-types'',
         data = ActivityTypeData \<lparr>name = ''Aula'', code = ''aula'', color = ''#3b82f6''\<rparr> None\<rparr>]"
proof -
  let ?st = "handleEditActivity
        \<lparr>id_ActivityType = 0, name_ActivityType = ''Aula'', code_ActivityType = ''aula'',
         color_ActivityType = ''#3b82f6''\<rparr> initialSettings"
  let ?v = "\<lparr>name = ''Aula'', code = ''aula'', color = ''#3b82f6''\<rparr>"
  have e: "editingActivityId ?st = Some 0" and q: "requests ?st = []"
    and f: "fieldValues (activityForm ?st) = ?v"
    by (simp_all add: handleEditActivity_def initialSettings_def reset_def Let_def)
  have ok: "activityTypeSchema ?v = []"
    by (simp add: activityTypeSchema_def stringMin_def)
  let ?st' = "?st\<lparr>activityForm := (activityForm ?st)\<lparr>errors := []\<rparr>\<rparr>"
  have e': "editingActivityId ?st' = Some 0" and q': "requests ?st' = []"
    using e q by simp_all
  have "activityForm_handleSubmit Resolved ?st = onSubmitActivityType ?v Resolved ?st'"
    by (simp add: activityForm_handleSubmit_def Let_def f ok)
  then show ?thesis
    using onSubmitActivityType_editing_id_zero_creates [of ?st' ?v Resolved] e e' q' by simp
qed

end
